theory Spec2Isabelle
  imports Main "HOL-Library.Sublist"
begin

text \<open>
  A shallow embedding of \<^verbatim>\<open>js/main.js\<close>, the script that renders the posts of a user chosen in a
  select menu. The functions keep their names. They run on a \<open>world\<close>: the document tree, the
  listeners registered on its elements, the log of requests sent to the remote API, and the
  error console. A function that can throw, or whose promise can reject, returns a sum with
  the thrown value on the left. The development covers the functions from
  \<^verbatim>\<open>createElemWithText\<close> to \<^verbatim>\<open>selectMenuChangeEventHandler\<close>; one handler runs at a time.
\<close>

section \<open>JavaScript values\<close>

text \<open>
  The primitive values that reach the functions of \<^verbatim>\<open>main.js\<close>: identifiers, text fields and
  missing arguments. Numbers are the integers and NaN; \<open>ToString\<close> prints an integer in plain
  decimal, as ECMAScript does for every integer below \<open>10^21\<close>.
\<close>

datatype prim = PUndefined | PNull | PBool bool | PNum int | PNaN | PStr string

text \<open>A value that may be absent: \<open>Undef\<close> is \<^verbatim>\<open>undefined\<close>, \<open>Nul\<close> is \<^verbatim>\<open>null\<close>, \<open>Obj\<close> an object or array.\<close>

datatype 'a maybe = Undef | Nul | Obj 'a

text \<open>Thrown values. The message of a \<open>TypeError\<close> names the operation that failed.\<close>

datatype exn = Error string | TypeError string | SyntaxError string

definition digitChar :: "nat \<Rightarrow> char" where
  "digitChar d = ''0123456789'' ! d"

fun showNat :: "nat \<Rightarrow> string" where
  "showNat n = (if n < 10 then [digitChar n] else showNat (n div 10) @ [digitChar (n mod 10)])"

fun ToString :: "prim \<Rightarrow> string" where
  "ToString PUndefined = ''undefined''"
| "ToString PNull = ''null''"
| "ToString (PBool b) = (if b then ''true'' else ''false'')"
| "ToString (PNum n) = (if n < 0 then CHR ''-'' # showNat (nat (- n)) else showNat (nat n))"
| "ToString PNaN = ''NaN''"
| "ToString (PStr s) = s"

text \<open>\<open>ToBoolean\<close>: what \<^verbatim>\<open>if (x)\<close> and \<^verbatim>\<open>!x\<close> test.\<close>

fun truthy :: "prim \<Rightarrow> bool" where
  "truthy PUndefined = False"
| "truthy PNull = False"
| "truthy (PBool b) = b"
| "truthy (PNum n) = (n \<noteq> 0)"
| "truthy PNaN = False"
| "truthy (PStr s) = (s \<noteq> [])"

fun present :: "'a maybe \<Rightarrow> bool" where
  "present (Obj x) = True"
| "present _ = False"

subsection \<open>parseInt and Number.isInteger\<close>

definition isWhiteSpace :: "char \<Rightarrow> bool" where
  "isWhiteSpace c = (c \<in> set [CHR '' '', CHR 0x09, CHR 0x0A, CHR 0x0B, CHR 0x0C, CHR 0x0D])"






section \<open>Entities of the remote API\<close>

text \<open>
  The objects of the JSON payloads, with the properties the code reads. A property the payload
  lacks reads as \<open>PUndefined\<close>; a missing or null nested object as \<open>Undef\<close> or \<open>Nul\<close>.
\<close>

record company =
  company_name :: prim
  company_catchPhrase :: prim

record user =
  user_id :: prim
  user_name :: prim
  user_company :: "company maybe"

record post =
  post_id :: prim
  post_userId :: prim
  post_title :: prim
  post_body :: prim

record comment =
  comment_name :: prim
  comment_body :: prim
  comment_email :: prim

section \<open>The document\<close>

text \<open>
  A click listener is the closure \<^verbatim>\<open>(event) => { toggleComments(event, postId); }\<close>: the number
  is the identity of the closure object, the string the captured \<^verbatim>\<open>postId\<close>.
\<close>

datatype listener = Listener nat string

text \<open>
  The properties of an element that the code reads or writes: its tag name (as given to
  \<^verbatim>\<open>createElement\<close>; selectors match it), the tokens of its \<^verbatim>\<open>class\<close> attribute, its
  \<^verbatim>\<open>data-post-id\<close> attribute (\<^verbatim>\<open>dataset.postId\<close>), its \<^verbatim>\<open>value\<close>, the property \<^verbatim>\<open>listener\<close> that
  \<^verbatim>\<open>toggleComments\<close> sets on the target of an event, and its click listeners in the order of
  registration.
\<close>

record elem =
  tagName :: string
  classList :: "string list"
  dataPostId :: "string option"
  elValue :: string
  listenerProp :: bool
  clickListeners :: "listener list"

datatype node = Text string | Element elem "node list"

type_synonym path = "nat list"

definition createElement :: "string \<Rightarrow> node" where
  "createElement t = Element \<lparr> tagName = t, classList = [], dataPostId = None, elValue = [],
     listenerProp = False, clickListeners = [] \<rparr> []"

fun isElement :: "node \<Rightarrow> bool" where
  "isElement (Element e cs) = True"
| "isElement (Text s) = False"

fun childNodes :: "node \<Rightarrow> node list" where
  "childNodes (Element e cs) = cs"
| "childNodes (Text s) = []"

fun textContent :: "node \<Rightarrow> string" where
  "textContent (Text s) = s"
| "textContent (Element e cs) = concat (map textContent cs)"

text \<open>
  A node of the document is addressed by its path: the child indices from the document node
  down. Nodes that are not in the document yet (what \<^verbatim>\<open>createElement\<close> returns) are values.
\<close>

fun node_at :: "path \<Rightarrow> node list \<Rightarrow> node option" where
  "node_at [] ns = None"
| "node_at (i # p) [] = None"
| "node_at (0 # p) (n # ns) = (if p = [] then Some n else node_at p (childNodes n))"
| "node_at (Suc i # p) (n # ns) = node_at (i # p) ns"

fun update_at :: "path \<Rightarrow> (node \<Rightarrow> node) \<Rightarrow> node list \<Rightarrow> node list" where
  "update_at [] f ns = ns"
| "update_at (i # p) f [] = []"
| "update_at (0 # p) f (Text s # ns) = (if p = [] then f (Text s) else Text s) # ns"
| "update_at (0 # p) f (Element e cs # ns) =
     (if p = [] then f (Element e cs) else Element e (update_at p f cs)) # ns"
| "update_at (Suc i # p) f (n # ns) = n # update_at (i # p) f ns"

subsection \<open>Selectors\<close>

text \<open>
  The two forms of selector in the source: a tag name (\<^verbatim>\<open>'main'\<close>, \<^verbatim>\<open>'button'\<close>) and
  \<^verbatim>\<open>tag[data-post-id='v']\<close>, which selects the elements of that tag whose \<^verbatim>\<open>data-post-id\<close>
  attribute is exactly \<open>v\<close>. The source builds \<open>v\<close> from a post id, a number or the
  \<^verbatim>\<open>dataset\<close> string written from one: its text has no quote, backslash or line break, which
  a CSS string would read differently.
\<close>

datatype selector = ByTag string | ByTagPostId string string

fun matches :: "selector \<Rightarrow> elem \<Rightarrow> bool" where
  "matches (ByTag t) e = (tagName e = t)"
| "matches (ByTagPostId t v) e = (tagName e = t \<and> dataPostId e = Some v)"

fun nextSibling :: "path \<Rightarrow> path" where
  "nextSibling [] = []"
| "nextSibling (i # p) = Suc i # p"

text \<open>The paths of the matching elements among the descendants of a node list, in tree order.\<close>

fun querySelectorAll :: "selector \<Rightarrow> node list \<Rightarrow> path list" where
  "querySelectorAll sel [] = []"
| "querySelectorAll sel (Text s # ns) = map nextSibling (querySelectorAll sel ns)"
| "querySelectorAll sel (Element e cs # ns) =
     (if matches sel e then [[0]] else []) @ map ((#) 0) (querySelectorAll sel cs)
       @ map nextSibling (querySelectorAll sel ns)"

definition querySelector :: "selector \<Rightarrow> node list \<Rightarrow> path option" where
  "querySelector sel ns = (case querySelectorAll sel ns of [] \<Rightarrow> None | p # ps \<Rightarrow> Some p)"

subsection \<open>Element properties\<close>

text \<open>
  The \<^verbatim>\<open>textContent\<close> setter takes a nullable string: \<^verbatim>\<open>null\<close> and \<^verbatim>\<open>undefined\<close> are the empty
  string. It replaces the children of an element by one text node, or by none when the string
  is empty.
\<close>

fun nullableString :: "prim \<Rightarrow> string" where
  "nullableString PUndefined = []"
| "nullableString PNull = []"
| "nullableString v = ToString v"

fun setTextContent :: "prim \<Rightarrow> node \<Rightarrow> node" where
  "setTextContent v (Text s) = Text (nullableString v)"
| "setTextContent v (Element e cs) =
     Element e (if nullableString v = [] then [] else [Text (nullableString v)])"

fun tokens :: "string \<Rightarrow> string \<Rightarrow> string list" where
  "tokens cur [] = (if cur = [] then [] else [cur])"
| "tokens cur (c # cs) =
     (if isWhiteSpace c then (if cur = [] then tokens [] cs else cur # tokens [] cs)
      else tokens (cur @ [c]) cs)"

fun setClassName :: "string \<Rightarrow> node \<Rightarrow> node" where
  "setClassName s (Element e cs) = Element (e\<lparr>classList := rev (remdups (rev (tokens [] s)))\<rparr>) cs"
| "setClassName s (Text t) = Text t"

definition classList_add :: "string \<Rightarrow> string list \<Rightarrow> string list" where
  "classList_add t cl = (if t \<in> set cl then cl else cl @ [t])"

definition classList_toggle :: "string \<Rightarrow> string list \<Rightarrow> string list" where
  "classList_toggle t cl = (if t \<in> set cl then removeAll t cl else cl @ [t])"

fun toggleClass :: "string \<Rightarrow> node \<Rightarrow> node" where
  "toggleClass t (Element e cs) = Element (e\<lparr>classList := classList_toggle t (classList e)\<rparr>) cs"
| "toggleClass t (Text s) = Text s"

fun setDataPostId :: "prim \<Rightarrow> node \<Rightarrow> node" where
  "setDataPostId v (Element e cs) = Element (e\<lparr>dataPostId := Some (ToString v)\<rparr>) cs"
| "setDataPostId v (Text s) = Text s"

fun setValue :: "prim \<Rightarrow> node \<Rightarrow> node" where
  "setValue v (Element e cs) = Element (e\<lparr>elValue := ToString v\<rparr>) cs"
| "setValue v (Text s) = Text s"

fun appendChild :: "node \<Rightarrow> node \<Rightarrow> node" where
  "appendChild c (Element e cs) = Element e (cs @ [c])"
| "appendChild c (Text s) = Text s"

fun appendChildren :: "node list \<Rightarrow> node \<Rightarrow> node" where
  "appendChildren f (Element e cs) = Element e (cs @ f)"
| "appendChildren f (Text s) = Text s"

section \<open>The world\<close>

text \<open>
  What \<^verbatim>\<open>fetch\<close> does with a request: the promise rejects, or it resolves to a response with
  its \<^verbatim>\<open>ok\<close> flag and the outcome of \<^verbatim>\<open>response.json()\<close> (\<open>Inl\<close>: that promise rejects).
\<close>

datatype 'a outcome = Rejects exn | Responds bool "exn + 'a"

text \<open>
  The state the functions read and write: the children of the document node, the number of
  listener closures created so far, the requests issued (oldest first), what was written
  with \<^verbatim>\<open>console.error\<close>, and the remote API. The API answers a request from the number of
  requests made before it and the URL, one table per endpoint.
\<close>

record world =
  document :: "node list"
  closures :: nat
  requests :: "string list"
  console :: "(string \<times> exn) list"
  users_api :: "nat \<Rightarrow> string \<Rightarrow> user list outcome"
  posts_api :: "nat \<Rightarrow> string \<Rightarrow> post list outcome"
  user_api :: "nat \<Rightarrow> string \<Rightarrow> user outcome"
  comments_api :: "nat \<Rightarrow> string \<Rightarrow> comment list outcome"

text \<open>
  What a function returns or receives when it is not one of the typed entities: a primitive,
  a node of the document, a \<^verbatim>\<open>NodeList\<close>, a node or a fragment outside the document, an array.
\<close>

datatype jsval = Prim prim | NodeRef path | NodeList "path list" | Detached node
  | Fragment "node list" | Array "jsval list"

section \<open>The functions of main.js\<close>

subsection \<open>createElemWithText, createSelectOptions\<close>

text \<open>
  \<^verbatim>\<open>elem\<close> and \<^verbatim>\<open>text\<close> take their defaults when they are \<^verbatim>\<open>undefined\<close>. Every call in the
  source passes a literal tag name.
\<close>

definition createElemWithText :: "prim \<Rightarrow> prim \<Rightarrow> prim \<Rightarrow> node" where
  "createElemWithText elem text className =
    (let elem' = (if elem = PUndefined then PStr ''p'' else elem);
         text' = (if text = PUndefined then PStr [] else text);
         element = createElement (ToString elem');
         element = setTextContent text' element
     in if truthy className then setClassName (ToString className) element else element)"

definition createOption :: "user \<Rightarrow> node" where
  "createOption u =
    (let option = createElement ''option'';
         option = setValue (user_id u) option
     in setTextContent (user_name u) option)"

fun createSelectOptions_loop :: "node list \<Rightarrow> user list \<Rightarrow> node list" where
  "createSelectOptions_loop options [] = options"
| "createSelectOptions_loop options (u # us) = createSelectOptions_loop (options @ [createOption u]) us"

definition createSelectOptions :: "user list maybe \<Rightarrow> node list maybe" where
  "createSelectOptions users =
    (case users of Obj us \<Rightarrow> Obj (createSelectOptions_loop [] us) | _ \<Rightarrow> Undef)"

subsection \<open>toggleCommentSection, toggleCommentButton\<close>

definition toggleCommentSection :: "world \<Rightarrow> prim \<Rightarrow> world \<times> jsval" where
  "toggleCommentSection w postId =
    (if postId = PUndefined then (w, Prim PUndefined)
     else case querySelector (ByTagPostId ''section'' (ToString postId)) (document w) of
       None \<Rightarrow> (w, Prim PNull)
     | Some section \<Rightarrow>
         (w\<lparr>document := update_at section (toggleClass ''hide'') (document w)\<rparr>, NodeRef section))"

definition toggleButtonText :: "node \<Rightarrow> node" where
  "toggleButtonText button =
     setTextContent (PStr (if textContent button = ''Show Comments'' then ''Hide Comments''
                           else ''Show Comments'')) button"

definition toggleCommentButton :: "world \<Rightarrow> prim \<Rightarrow> world \<times> jsval" where
  "toggleCommentButton w postId =
    (if postId = PUndefined then (w, Prim PUndefined)
     else case querySelector (ByTagPostId ''button'' (ToString postId)) (document w) of
       None \<Rightarrow> (w, Prim PNull)
     | Some button \<Rightarrow>
         (w\<lparr>document := update_at button toggleButtonText (document w)\<rparr>, NodeRef button))"

subsection \<open>deleteChildElements\<close>

fun lastElementChild :: "node list \<Rightarrow> nat option" where
  "lastElementChild [] = None"
| "lastElementChild (n # ns) =
     (case lastElementChild ns of Some i \<Rightarrow> Some (Suc i)
      | None \<Rightarrow> if isElement n then Some 0 else None)"

definition removeChild :: "nat \<Rightarrow> node list \<Rightarrow> node list" where
  "removeChild i cs = take i cs @ drop (Suc i) cs"

text \<open>The \<^verbatim>\<open>while (child)\<close> loop, on the child list of the parent.\<close>

function deleteChildElements_loop :: "node list \<Rightarrow> node list" where
  "deleteChildElements_loop cs =
     (case lastElementChild cs of None \<Rightarrow> cs
      | Some i \<Rightarrow> deleteChildElements_loop (removeChild i cs))"
  by pat_completeness auto
termination
proof (relation "measure length")
  fix cs :: "node list" and i
  assume found: "lastElementChild cs = Some i"
  have bound: "lastElementChild ns = Some k \<Longrightarrow> k < length ns" for ns k
    by (induction ns arbitrary: k) (auto split: option.splits if_splits)
  from bound [OF found] show "(removeChild i cs, cs) \<in> measure length"
    by (simp add: removeChild_def)
qed simp

declare deleteChildElements_loop.simps [simp del]

fun deleteChildrenOf :: "node \<Rightarrow> node" where
  "deleteChildrenOf (Element e cs) = Element e (deleteChildElements_loop cs)"
| "deleteChildrenOf (Text s) = Text s"

text \<open>
  \<^verbatim>\<open>parentElement?.tagName\<close>: an element has a tag name, and it is never empty; a text node, a
  fragment, a \<^verbatim>\<open>NodeList\<close>, an array and a primitive have none.
\<close>

definition tagNameOf :: "world \<Rightarrow> jsval \<Rightarrow> string option" where
  "tagNameOf w v =
    (case v of
       NodeRef p \<Rightarrow> (case node_at p (document w) of Some (Element e cs) \<Rightarrow> Some (tagName e) | _ \<Rightarrow> None)
     | Detached (Element e cs) \<Rightarrow> Some (tagName e)
     | _ \<Rightarrow> None)"

definition deleteChildElements :: "world \<Rightarrow> jsval \<Rightarrow> world \<times> jsval" where
  "deleteChildElements w parentElement =
    (if tagNameOf w parentElement = None then (w, Prim PUndefined)
     else case parentElement of
       NodeRef p \<Rightarrow> (w\<lparr>document := update_at p deleteChildrenOf (document w)\<rparr>, NodeRef p)
     | Detached n \<Rightarrow> (w, Detached (deleteChildrenOf n))
     | _ \<Rightarrow> (w, parentElement))"

subsection \<open>addButtonListeners, removeButtonListeners\<close>

text \<open>
  \<^verbatim>\<open>addEventListener\<close> appends a listener unless the same callback object is already
  registered; \<^verbatim>\<open>removeEventListener\<close> removes the registration of that callback object.
\<close>

fun addEventListener :: "listener \<Rightarrow> node \<Rightarrow> node" where
  "addEventListener l (Element e cs) =
     Element (e\<lparr>clickListeners := (if l \<in> set (clickListeners e) then clickListeners e
                                     else clickListeners e @ [l])\<rparr>) cs"
| "addEventListener l (Text s) = Text s"

fun removeEventListener :: "listener \<Rightarrow> node \<Rightarrow> node" where
  "removeEventListener l (Element e cs) = Element (e\<lparr>clickListeners := remove1 l (clickListeners e)\<rparr>) cs"
| "removeEventListener l (Text s) = Text s"

definition elementAt :: "world \<Rightarrow> path \<Rightarrow> elem option" where
  "elementAt w p = (case node_at p (document w) of Some (Element e cs) \<Rightarrow> Some e | _ \<Rightarrow> None)"

definition childrenAt :: "world \<Rightarrow> path \<Rightarrow> node list" where
  "childrenAt w p = (case node_at p (document w) of Some n \<Rightarrow> childNodes n | None \<Rightarrow> [])"

text \<open>\<^verbatim>\<open>element.querySelectorAll(sel)\<close>: the matching descendants of the element at \<open>p\<close>.\<close>

definition querySelectorAllIn :: "world \<Rightarrow> path \<Rightarrow> selector \<Rightarrow> path list" where
  "querySelectorAllIn w p sel = map ((@) p) (querySelectorAll sel (childrenAt w p))"

text \<open>
  The body of the \<^verbatim>\<open>forEach\<close> callbacks. Each run that finds a truthy
  \<^verbatim>\<open>button.dataset.postId\<close> evaluates the arrow function, which makes a new closure object.
\<close>

definition addButtonListener :: "world \<Rightarrow> path \<Rightarrow> world" where
  "addButtonListener w button =
    (case elementAt w button of
       None \<Rightarrow> w
     | Some e \<Rightarrow>
        (case dataPostId e of
           None \<Rightarrow> w
         | Some postId \<Rightarrow>
             if postId = [] then w
             else w\<lparr>document := update_at button (addEventListener (Listener (closures w) postId)) (document w),
                    closures := Suc (closures w)\<rparr>))"

definition removeButtonListener :: "world \<Rightarrow> path \<Rightarrow> world" where
  "removeButtonListener w button =
    (case elementAt w button of
       None \<Rightarrow> w
     | Some e \<Rightarrow>
        (case dataPostId e of
           None \<Rightarrow> w
         | Some postId \<Rightarrow>
             if postId = [] then w
             else w\<lparr>document := update_at button (removeEventListener (Listener (closures w) postId)) (document w),
                    closures := Suc (closures w)\<rparr>))"

definition addButtonListeners :: "world \<Rightarrow> world \<times> jsval" where
  "addButtonListeners w =
    (case querySelector (ByTag ''main'') (document w) of
       None \<Rightarrow> (w, Prim PNull)
     | Some mainElement \<Rightarrow>
         (let buttons = querySelectorAllIn w mainElement (ByTag ''button'')
          in (foldl addButtonListener w buttons, NodeList buttons)))"

definition removeButtonListeners :: "world \<Rightarrow> world \<times> jsval" where
  "removeButtonListeners w =
    (case querySelector (ByTag ''main'') (document w) of
       None \<Rightarrow> (w, Prim PNull)
     | Some mainElement \<Rightarrow>
         (let buttons = querySelectorAllIn w mainElement (ByTag ''button'')
          in (foldl removeButtonListener w buttons, NodeList buttons)))"

subsection \<open>createComments\<close>

definition createComment :: "comment \<Rightarrow> node" where
  "createComment c =
    (let article = createElement ''article'';
         h3 = createElemWithText (PStr ''h3'') (comment_name c) PUndefined;
         pBody = createElemWithText (PStr ''p'') (comment_body c) PUndefined;
         pEmail = createElemWithText (PStr ''p'') (PStr (''From: '' @ ToString (comment_email c))) PUndefined;
         article = appendChild h3 article;
         article = appendChild pBody article
     in appendChild pEmail article)"

fun createComments_loop :: "node list \<Rightarrow> comment list \<Rightarrow> node list" where
  "createComments_loop fragment [] = fragment"
| "createComments_loop fragment (c # cs) = createComments_loop (fragment @ [createComment c]) cs"

definition createComments :: "comment list maybe \<Rightarrow> node list maybe" where
  "createComments comments =
    (case comments of Obj cs \<Rightarrow> Obj (createComments_loop [] cs) | _ \<Rightarrow> Undef)"

subsection \<open>The API client\<close>

definition fetch :: "(nat \<Rightarrow> string \<Rightarrow> 'a outcome) \<Rightarrow> world \<Rightarrow> string \<Rightarrow> world \<times> 'a outcome" where
  "fetch api w url = (w\<lparr>requests := requests w @ [url]\<rparr>, api (length (requests w)) url)"

text \<open>The \<^verbatim>\<open>try\<close> block of the four functions: \<open>Inl\<close> is what it throws.\<close>

definition tryFetchJson :: "(nat \<Rightarrow> string \<Rightarrow> 'a outcome) \<Rightarrow> world \<Rightarrow> string \<Rightarrow> world \<times> (exn + 'a)" where
  "tryFetchJson api w url =
    (case fetch api w url of
       (w1, Rejects e) \<Rightarrow> (w1, Inl e)
     | (w1, Responds ok body) \<Rightarrow>
         if \<not> ok then (w1, Inl (Error ''Network response was not ok'')) else (w1, body))"

text \<open>The \<^verbatim>\<open>catch\<close> block: \<^verbatim>\<open>console.error('Fetch error:', error); return null;\<close>\<close>

definition catchFetchError :: "world \<times> (exn + 'a) \<Rightarrow> world \<times> (exn + 'a maybe)" where
  "catchFetchError r =
    (case r of
       (w1, Inl error) \<Rightarrow> (w1\<lparr>console := console w1 @ [(''Fetch error:'', error)]\<rparr>, Inr Nul)
     | (w1, Inr v) \<Rightarrow> (w1, Inr (Obj v)))"

definition getUsers :: "world \<Rightarrow> world \<times> (exn + user list maybe)" where
  "getUsers w = catchFetchError (tryFetchJson (users_api w) w ''https://jsonplaceholder.typicode.com/users'')"

definition getUserPosts :: "world \<Rightarrow> prim \<Rightarrow> world \<times> (exn + post list maybe)" where
  "getUserPosts w userId =
    (if userId = PUndefined then (w, Inr Undef)
     else catchFetchError (tryFetchJson (posts_api w) w
            (''https://jsonplaceholder.typicode.com/posts?userId='' @ ToString userId)))"

definition getUser :: "world \<Rightarrow> prim \<Rightarrow> world \<times> (exn + user maybe)" where
  "getUser w userId =
    (if userId = PUndefined then (w, Inr Undef)
     else catchFetchError (tryFetchJson (user_api w) w
            (''https://jsonplaceholder.typicode.com/users/'' @ ToString userId)))"

definition getPostComments :: "world \<Rightarrow> prim \<Rightarrow> world \<times> (exn + comment list maybe)" where
  "getPostComments w postId =
    (if postId = PUndefined then (w, Inr Undef)
     else catchFetchError (tryFetchJson (comments_api w) w
            (''https://jsonplaceholder.typicode.com/comments?postId='' @ ToString postId)))"

subsection \<open>displayComments, createPosts, displayPosts\<close>

text \<open>
  An \<^verbatim>\<open>async\<close> function is run to the settlement of its promise, every \<^verbatim>\<open>await\<close> in source
  order: \<open>Inr\<close> is the value the promise resolves to, \<open>Inl\<close> the value it rejects with.
  \<^verbatim>\<open>appendChild\<close> throws a \<open>TypeError\<close> when its argument is not a node.
\<close>

definition displayComments :: "world \<Rightarrow> prim \<Rightarrow> world \<times> (exn + node maybe)" where
  "displayComments w postId =
    (if postId = PUndefined then (w, Inr Undef)
     else
      (let section = createElement ''section'';
           section = setDataPostId postId section;
           section = (case section of
                        Element e cs \<Rightarrow> Element (e\<lparr>classList := classList_add ''hide''
                                          (classList_add ''comments'' (classList e))\<rparr>) cs
                      | Text s \<Rightarrow> Text s)
       in case getPostComments w postId of
            (w1, Inl e) \<Rightarrow> (w1, Inl e)
          | (w1, Inr comments) \<Rightarrow>
              (case createComments comments of
                 Obj fragment \<Rightarrow> (w1, Inr (Obj (appendChildren fragment section)))
               | _ \<Rightarrow> (w1, Inl (TypeError ''appendChild: argument is not a Node'')))))"

text \<open>The body of the \<^verbatim>\<open>for\<close> loop of \<^verbatim>\<open>createPosts\<close>: the article of one post.\<close>

definition createPost :: "world \<Rightarrow> post \<Rightarrow> world \<times> (exn + node)" where
  "createPost w post =
    (let article = createElement ''article'';
         h2 = createElemWithText (PStr ''h2'') (post_title post) PUndefined;
         pBody = createElemWithText (PStr ''p'') (post_body post) PUndefined;
         pPostId = createElemWithText (PStr ''p'') (PStr (''Post ID: '' @ ToString (post_id post))) PUndefined
     in case getUser w (post_userId post) of
          (w1, Inl e) \<Rightarrow> (w1, Inl e)
        | (w1, Inr author) \<Rightarrow>
           (case author of
              Obj a \<Rightarrow>
               (case user_company a of
                  Obj c \<Rightarrow>
                   (let pAuthor = createElemWithText (PStr ''p'')
                          (PStr (''Author: '' @ ToString (user_name a) @ '' with '' @ ToString (company_name c)))
                          PUndefined;
                        pCatchPhrase = createElemWithText (PStr ''p'') (company_catchPhrase c) PUndefined;
                        button = createElemWithText (PStr ''button'') (PStr ''Show Comments'') PUndefined;
                        button = setDataPostId (post_id post) button;
                        article = appendChild h2 article;
                        article = appendChild pBody article;
                        article = appendChild pPostId article;
                        article = appendChild pAuthor article;
                        article = appendChild pCatchPhrase article;
                        article = appendChild button article
                    in case displayComments w1 (post_id post) of
                         (w2, Inl e) \<Rightarrow> (w2, Inl e)
                       | (w2, Inr (Obj section)) \<Rightarrow> (w2, Inr (appendChild section article))
                       | (w2, Inr _) \<Rightarrow> (w2, Inl (TypeError ''appendChild: argument is not a Node'')))
                | _ \<Rightarrow> (w1, Inl (TypeError ''cannot read properties of author.company'')))
            | _ \<Rightarrow> (w1, Inl (TypeError ''cannot read properties of author''))))"

fun createPosts_loop :: "world \<Rightarrow> node list \<Rightarrow> post list \<Rightarrow> world \<times> (exn + node list)" where
  "createPosts_loop w fragment [] = (w, Inr fragment)"
| "createPosts_loop w fragment (post # posts) =
     (case createPost w post of
        (w1, Inl e) \<Rightarrow> (w1, Inl e)
      | (w1, Inr article) \<Rightarrow> createPosts_loop w1 (fragment @ [article]) posts)"

definition createPosts :: "world \<Rightarrow> post list maybe \<Rightarrow> world \<times> (exn + node list maybe)" where
  "createPosts w posts =
    (case posts of
       Obj ps \<Rightarrow>
         if length ps < 1 then (w, Inr Undef)
         else (case createPosts_loop w [] ps of
                 (w1, Inl e) \<Rightarrow> (w1, Inl e)
               | (w1, Inr fragment) \<Rightarrow> (w1, Inr (Obj fragment)))
     | _ \<Rightarrow> (w, Inr Undef))"

definition childElementCount :: "node list \<Rightarrow> nat" where
  "childElementCount cs = length (filter isElement cs)"

text \<open>
  The placeholder branch of \<^verbatim>\<open>displayPosts\<close>: the paragraph is appended to \<^verbatim>\<open>main\<close> and
  returned, now the last child of \<^verbatim>\<open>main\<close>.
\<close>

definition appendDefaultText :: "world \<Rightarrow> path \<Rightarrow> world \<times> (exn + jsval)" where
  "appendDefaultText w main =
    (let element = createElemWithText (PStr ''p'') (PStr ''Select an Employee to display their posts.'')
                     (PStr ''default-text'')
     in (w\<lparr>document := update_at main (appendChild element) (document w)\<rparr>,
         Inr (NodeRef (main @ [length (childrenAt w main)]))))"

text \<open>Appending a fragment moves its children: the fragment returned is empty.\<close>

definition displayPosts :: "world \<Rightarrow> post list maybe \<Rightarrow> world \<times> (exn + jsval)" where
  "displayPosts w posts =
    (case querySelector (ByTag ''main'') (document w) of
       None \<Rightarrow> (w, Inr (Prim PNull))
     | Some main \<Rightarrow>
        (case createPosts w posts of
           (w1, Inl e) \<Rightarrow> (w1, Inl e)
         | (w1, Inr element) \<Rightarrow>
            (case element of
               Obj fragment \<Rightarrow>
                 if childElementCount fragment < 1 then appendDefaultText w1 main
                 else (w1\<lparr>document := update_at main (appendChildren fragment) (document w1)\<rparr>,
                       Inr (Fragment []))
             | _ \<Rightarrow> appendDefaultText w1 main)))"

subsection \<open>toggleComments, refreshPosts, selectMenuChangeEventHandler\<close>

text \<open>A click event with its \<^verbatim>\<open>target\<close>: a node of the document, or none.\<close>

datatype event = Event "path maybe"

fun setListenerProp :: "node \<Rightarrow> node" where
  "setListenerProp (Element e cs) = Element (e\<lparr>listenerProp := True\<rparr>) cs"
| "setListenerProp (Text s) = Text s"

definition toggleComments :: "world \<Rightarrow> event maybe \<Rightarrow> prim \<Rightarrow> world \<times> (exn + jsval)" where
  "toggleComments w event postId =
    (case event of
       Obj (Event target) \<Rightarrow>
         if postId = PUndefined then (w, Inr (Prim PUndefined))
         else (case target of
                 Obj t \<Rightarrow>
                   (let w1 = w\<lparr>document := update_at t setListenerProp (document w)\<rparr>;
                        (w2, section) = toggleCommentSection w1 postId;
                        (w3, button) = toggleCommentButton w2 postId
                    in (w3, Inr (Array [section, button])))
               | _ \<Rightarrow> (w, Inl (TypeError ''cannot set properties of event.target'')))
     | _ \<Rightarrow> (w, Inr (Prim PUndefined)))"

definition refreshPosts :: "world \<Rightarrow> post list maybe \<Rightarrow> world \<times> (exn + jsval)" where
  "refreshPosts w posts =
    (if \<not> present posts then (w, Inr (Prim PUndefined))
     else
      (let (w1, removeButtons) = removeButtonListeners w;
           mainElement = (case querySelector (ByTag ''main'') (document w1) of
                            None \<Rightarrow> Prim PNull | Some p \<Rightarrow> NodeRef p);
           (w2, main) = deleteChildElements w1 mainElement
       in case displayPosts w2 posts of
            (w3, Inl e) \<Rightarrow> (w3, Inl e)
          | (w3, Inr fragment) \<Rightarrow>
              (let (w4, addButtons) = addButtonListeners w3
               in (w4, Inr (Array [removeButtons, main, fragment, addButtons])))))"






subsection \<open>Dispatching a click\<close>

text \<open>A click on the element at \<open>button\<close> runs its click listeners in the order of registration.\<close>

definition runListener :: "path \<Rightarrow> world \<Rightarrow> listener \<Rightarrow> world" where
  "runListener button w l =
    (case l of Listener k postId \<Rightarrow> fst (toggleComments w (Obj (Event (Obj button))) (PStr postId)))"

definition dispatchClick :: "world \<Rightarrow> path \<Rightarrow> world" where
  "dispatchClick w button =
    foldl (runListener button) w (case elementAt w button of Some e \<Rightarrow> clickListeners e | None \<Rightarrow> [])"

section \<open>Sample data\<close>

text \<open>A user, a post and a comment as the API serves them, and two remote APIs: one that
  answers every request, one that is unreachable.\<close>

definition leanne :: user where
  "leanne = \<lparr> user_id = PNum 1, user_name = PStr ''Leanne Graham'',
     user_company = Obj \<lparr> company_name = PStr ''Romaguera-Crona'',
                          company_catchPhrase = PStr ''Multi-layered client-server neural-net'' \<rparr> \<rparr>"

definition firstPost :: post where
  "firstPost = \<lparr> post_id = PNum 1, post_userId = PNum 1, post_title = PStr ''sunt aut facere'',
     post_body = PStr ''quia et suscipit'' \<rparr>"

definition firstComment :: comment where
  "firstComment = \<lparr> comment_name = PStr ''id labore'', comment_body = PStr ''laudantium enim'',
     comment_email = PStr ''Eliseo@gardner.biz'' \<rparr>"

definition servedUsers :: "nat \<Rightarrow> string \<Rightarrow> user list outcome" where
  "servedUsers k url = Responds True (Inr [leanne])"

definition servedPosts :: "nat \<Rightarrow> string \<Rightarrow> post list outcome" where
  "servedPosts k url = Responds True (Inr [firstPost])"

definition servedUser :: "nat \<Rightarrow> string \<Rightarrow> user outcome" where
  "servedUser k url = Responds True (Inr leanne)"

definition servedComments :: "nat \<Rightarrow> string \<Rightarrow> comment list outcome" where
  "servedComments k url = Responds True (Inr [firstComment])"

definition unreachable :: "nat \<Rightarrow> string \<Rightarrow> 'a outcome" where
  "unreachable k url = Rejects (TypeError ''Failed to fetch'')"

definition notFound :: "nat \<Rightarrow> string \<Rightarrow> 'a outcome" where
  "notFound k url = Responds False (Inl (SyntaxError ''Unexpected end of JSON input''))"

text \<open>The page \<^verbatim>\<open><main></main>\<close> with the API online, and the same page with the API unreachable.\<close>

definition onlinePage :: world where
  "onlinePage = \<lparr> document = [createElement ''main''], closures = 0, requests = [], console = [],
     users_api = servedUsers, posts_api = servedPosts, user_api = servedUser,
     comments_api = servedComments \<rparr>"

definition offlinePage :: world where
  "offlinePage = \<lparr> document = [createElement ''main''], closures = 0, requests = [], console = [],
     users_api = unreachable, posts_api = unreachable, user_api = unreachable,
     comments_api = unreachable \<rparr>"

text \<open>The same page with an API that answers every request with a status that is not ok.\<close>

definition failingPage :: world where
  "failingPage = \<lparr> document = [createElement ''main''], closures = 0, requests = [], console = [],
     users_api = notFound, posts_api = notFound, user_api = notFound, comments_api = notFound \<rparr>"


text \<open>A \<^verbatim>\<open>main\<close> element with text nodes between its element children.\<close>

definition textPage :: world where
  "textPage = onlinePage\<lparr>document :=
     [appendChild (createElement ''article'') (appendChild (Text ''...'')
        (appendChild (createElement ''p'') (appendChild (Text ''Loading'') (createElement ''main''))))]\<rparr>"

text \<open>The page after \<^verbatim>\<open>refreshPosts\<close> has rendered the post of the sample API.\<close>

definition refreshedPage :: world where
  "refreshedPage = fst (refreshPosts onlinePage (Obj [firstPost]))"



section \<open>Observations\<close>

text \<open>A network interaction fails when the request rejects or the response is not ok; the
  error the \<^verbatim>\<open>catch\<close> block then receives; the world after the failed request was logged.\<close>

fun fails :: "'a outcome \<Rightarrow> bool" where
  "fails (Rejects e) = True"
| "fails (Responds ok body) = (\<not> ok)"

fun failure :: "'a outcome \<Rightarrow> exn" where
  "failure (Rejects e) = e"
| "failure (Responds ok body) = Error ''Network response was not ok''"

definition failed :: "world \<Rightarrow> string \<Rightarrow> exn \<Rightarrow> world" where
  "failed w url e = w\<lparr>requests := requests w @ [url], console := console w @ [(''Fetch error:'', e)]\<rparr>"

text \<open>The click listeners, the presence of the \<^verbatim>\<open>hide\<close> class and the text of the node at a path.\<close>

definition listenersAt :: "world \<Rightarrow> path \<Rightarrow> listener list" where
  "listenersAt w p = (case elementAt w p of Some e \<Rightarrow> clickListeners e | None \<Rightarrow> [])"

definition hiddenAt :: "world \<Rightarrow> path \<Rightarrow> bool option" where
  "hiddenAt w p = (case elementAt w p of Some e \<Rightarrow> Some (''hide'' \<in> set (classList e)) | None \<Rightarrow> None)"


text \<open>
  Closure objects are numbered as they are made: in every world the code reaches, the closures
  registered as listeners have numbers below \<open>closures\<close>.
\<close>

fun closureOf :: "listener \<Rightarrow> nat" where
  "closureOf (Listener k postId) = k"

fun closuresBelow :: "nat \<Rightarrow> node list \<Rightarrow> bool" where
  "closuresBelow k [] = True"
| "closuresBelow k (Text s # ns) = closuresBelow k ns"
| "closuresBelow k (Element e cs # ns) =
     (list_all (\<lambda>l. closureOf l < k) (clickListeners e) \<and> closuresBelow k cs \<and> closuresBelow k ns)"




section \<open>Paths, updates and selectors\<close>

lemma node_at_Nil: "node_at p [] = None"
  by (cases p) simp_all

lemma node_at_update_at:
  "node_at p ns = Some n \<Longrightarrow> node_at p (update_at p f ns) = Some (f n)"
  by (induction p f ns rule: update_at.induct) (auto simp: node_at_Nil split: if_splits)




lemma nextSibling_Cons: "r \<noteq> [] \<Longrightarrow> \<exists>j r'. r = j # r' \<and> nextSibling r = Suc j # r'"
  by (cases r) simp_all














lemma node_at_update_at_None:
  "node_at p ns = None \<Longrightarrow> node_at p (update_at p f ns) = None"
  by (induction p f ns rule: update_at.induct) (auto simp: node_at_Nil split: if_splits)








section \<open>The loop of deleteChildElements\<close>

lemma lastElementChild_None: "lastElementChild cs = None \<Longrightarrow> filter (\<lambda>n. \<not> isElement n) cs = cs"
  by (induction cs) (auto split: option.splits if_splits)

lemma removeChild_Suc: "removeChild (Suc i) (n # ns) = n # removeChild i ns"
  by (simp add: removeChild_def)

lemma removeChild_0: "removeChild 0 (n # ns) = ns"
  by (simp add: removeChild_def)

lemma lastElementChild_Some:
  "lastElementChild cs = Some i \<Longrightarrow>
     filter (\<lambda>n. \<not> isElement n) (removeChild i cs) = filter (\<lambda>n. \<not> isElement n) cs"
proof (induction cs arbitrary: i)
  case Nil
  then show ?case by simp
next
  case (Cons n ns)
  show ?case
  proof (cases "lastElementChild ns")
    case None
    with Cons.prems have "i = 0" "isElement n" by (auto split: if_splits)
    then show ?thesis by (simp add: removeChild_0)
  next
    case (Some j)
    with Cons.prems have "i = Suc j" by simp
    with Cons.IH [OF Some] show ?thesis by (simp add: removeChild_Suc)
  qed
qed

lemma deleteChildElements_loop_filter:
  "deleteChildElements_loop cs = filter (\<lambda>n. \<not> isElement n) cs"
proof (induction cs rule: deleteChildElements_loop.induct)
  case (1 cs)
  show ?case
  proof (cases "lastElementChild cs")
    case None
    then show ?thesis by (subst deleteChildElements_loop.simps) (simp add: lastElementChild_None)
  next
    case (Some i)
    with "1.IH" [OF Some] show ?thesis by (subst deleteChildElements_loop.simps) (simp add: lastElementChild_Some)
  qed
qed

section \<open>createSelectOptions\<close>

lemma createSelectOptions_loop_map: "createSelectOptions_loop acc us = acc @ map createOption us"
  by (induction us arbitrary: acc) simp_all

lemma createOption_eq:
  "createOption u = Element \<lparr> tagName = ''option'', classList = [], dataPostId = None,
       elValue = ToString (user_id u), listenerProp = False, clickListeners = [] \<rparr>
     (if nullableString (user_name u) = [] then [] else [Text (nullableString (user_name u))])"
  by (simp add: createOption_def createElement_def Let_def)

lemma createOption_text:
  "textContent (createOption u) = nullableString (user_name u)"
  by (simp add: createOption_eq Let_def)

section \<open>The request log\<close>

lemma failing_fetch:
  "fails (api (length (requests w)) url) \<Longrightarrow>
   catchFetchError (tryFetchJson api w url) = (failed w url (failure (api (length (requests w)) url)), Inr Nul)"
  by (cases "api (length (requests w)) url")
     (simp_all add: catchFetchError_def tryFetchJson_def fetch_def failed_def)

lemma requests_catchFetchError:
  "requests (fst (catchFetchError (tryFetchJson api w url))) = requests w @ [url]"
  by (simp add: catchFetchError_def tryFetchJson_def fetch_def split: outcome.splits sum.splits)



















section \<open>Listener removal\<close>

lemma closuresBelow_mono: "closuresBelow k ns \<Longrightarrow> k \<le> k' \<Longrightarrow> closuresBelow k' ns"
  by (induction k ns rule: closuresBelow.induct) (auto simp: list_all_iff)

lemma remove_new_closure:
  "list_all (\<lambda>l. closureOf l < k) ls \<Longrightarrow> remove1 (Listener k postId) ls = ls"
  by (rule remove1_idem) (auto simp: list_all_iff)

lemma update_at_remove_new_closure:
  "closuresBelow k ns \<Longrightarrow> update_at p (removeEventListener (Listener k postId)) ns = ns"
proof (induction p "removeEventListener (Listener k postId)" ns rule: update_at.induct)
  case (4 p e cs ns)
  then show ?case by (cases "p = []") (simp_all add: remove_new_closure)
next
  case (5 i p n ns)
  then show ?case by (cases n) simp_all
qed simp_all

lemma removeButtonListener_document:
  assumes "closuresBelow (closures w) (document w)"
  shows "document (removeButtonListener w b) = document w"
    and "closuresBelow (closures (removeButtonListener w b)) (document (removeButtonListener w b))"
  using assms closuresBelow_mono [of "closures w" "document w" "Suc (closures w)"]
  by (simp_all add: removeButtonListener_def update_at_remove_new_closure split: option.splits)

lemma foldl_removeButtonListener_document:
  "closuresBelow (closures w) (document w) \<Longrightarrow> document (foldl removeButtonListener w bs) = document w"
proof (induction bs arbitrary: w)
  case Nil
  then show ?case by simp
next
  case (Cons b bs)
  from removeButtonListener_document [OF Cons.prems, of b] Cons.IH [of "removeButtonListener w b"]
  show ?case by simp
qed

section \<open>The claims\<close>

subsection \<open>C1: listeners across refreshes\<close>

text \<open>
  Whatever the document, \<^verbatim>\<open>removeButtonListeners\<close> leaves it as it was when the closures
  registered as listeners were made earlier, as they always are: the closure it passes to
  \<^verbatim>\<open>removeEventListener\<close> is a new object, which no registration holds.
\<close>

lemma removeButtonListeners_removes_nothing:
  "closuresBelow (closures w) (document w) \<Longrightarrow> document (fst (removeButtonListeners w)) = document w"
  by (simp add: removeButtonListeners_def Let_def foldl_removeButtonListener_document split: option.splits)

text \<open>
  C1. After two successive refreshes every button with a post id should have exactly one click
  handler, because \<^verbatim>\<open>removeButtonListeners\<close> removes the handlers bound before. On the page that
  \<^verbatim>\<open>refreshPosts\<close> has rendered, the button of post 1 has the one listener bound by
  \<^verbatim>\<open>addButtonListeners\<close>, and \<^verbatim>\<open>removeButtonListeners\<close> leaves that listener bound. Binding again
  then gives the button two listeners, and one click runs the toggle twice, so the comments
  stay hidden; with the single listener the same click shows them. A second \<^verbatim>\<open>refreshPosts\<close>
  still ends with one listener on the one button of the page: \<^verbatim>\<open>deleteChildElements\<close> has
  discarded the button that kept its listener, and the listener is on the button built anew.
\<close>

theorem removeButtonListeners_keeps_listener:
  "listenersAt refreshedPage [0, 0, 5] = [Listener 0 ''1'']
   \<and> listenersAt (fst (removeButtonListeners refreshedPage)) [0, 0, 5] = [Listener 0 ''1'']
   \<and> listenersAt (fst (addButtonListeners (fst (removeButtonListeners refreshedPage)))) [0, 0, 5]
       = [Listener 0 ''1'', Listener 2 ''1'']
   \<and> hiddenAt refreshedPage [0, 0, 6] = Some True
   \<and> hiddenAt (dispatchClick refreshedPage [0, 0, 5]) [0, 0, 6] = Some False
   \<and> hiddenAt (dispatchClick (fst (addButtonListeners (fst (removeButtonListeners refreshedPage))))
         [0, 0, 5]) [0, 0, 6] = Some True
   \<and> querySelectorAll (ByTag ''button'') (document (fst (refreshPosts refreshedPage (Obj [firstPost]))))
       = [[0, 0, 5]]
   \<and> listenersAt (fst (refreshPosts refreshedPage (Obj [firstPost]))) [0, 0, 5] = [Listener 2 ''1'']"
  by code_simp

subsection \<open>C2: failures that propagate\<close>

text \<open>
  C2. No function should let an exception reach its caller, in particular \<^verbatim>\<open>displayComments\<close>
  and \<^verbatim>\<open>createPosts\<close> when \<^verbatim>\<open>getPostComments\<close> or \<^verbatim>\<open>getUser\<close> returns \<^verbatim>\<open>null\<close>. With the API
  unreachable both fetch functions return \<^verbatim>\<open>null\<close>; \<^verbatim>\<open>createPosts\<close> then reads \<^verbatim>\<open>author.name\<close> of
  \<^verbatim>\<open>null\<close> and \<^verbatim>\<open>displayComments\<close> passes \<^verbatim>\<open>undefined\<close> to \<^verbatim>\<open>appendChild\<close>: both reject with a
  \<open>TypeError\<close>, and so do \<^verbatim>\<open>displayPosts\<close> and \<^verbatim>\<open>refreshPosts\<close>, which await \<^verbatim>\<open>createPosts\<close>.
\<close>

theorem createPosts_rejects_on_null_author:
  "snd (getUser offlinePage (PNum 1)) = Inr Nul
   \<and> snd (createPosts offlinePage (Obj [firstPost])) = Inl (TypeError ''cannot read properties of author'')
   \<and> snd (getPostComments offlinePage (PNum 1)) = Inr Nul
   \<and> snd (displayComments offlinePage (PNum 1)) = Inl (TypeError ''appendChild: argument is not a Node'')
   \<and> snd (displayPosts offlinePage (Obj [firstPost])) = Inl (TypeError ''cannot read properties of author'')
   \<and> snd (refreshPosts offlinePage (Obj [firstPost])) = Inl (TypeError ''cannot read properties of author'')"
  by code_simp

subsection \<open>C3: a failing network call\<close>

text \<open>
  C3. When the request of a fetch function rejects or its response is not ok, the function
  resolves to \<^verbatim>\<open>null\<close> (it does not reject), having issued that one request and written one
  entry, the error, with \<^verbatim>\<open>console.error\<close>. For the three functions that take an identifier
  the identifier is given, so that a request is made.
\<close>

theorem fetch_failure_returns_null:
  "(fails (users_api w (length (requests w)) ''https://jsonplaceholder.typicode.com/users'') \<longrightarrow>
      getUsers w =
        (failed w ''https://jsonplaceholder.typicode.com/users''
           (failure (users_api w (length (requests w)) ''https://jsonplaceholder.typicode.com/users'')),
         Inr Nul))
   \<and> (ident \<noteq> PUndefined
        \<and> fails (posts_api w (length (requests w))
                  (''https://jsonplaceholder.typicode.com/posts?userId='' @ ToString ident)) \<longrightarrow>
      getUserPosts w ident =
        (failed w (''https://jsonplaceholder.typicode.com/posts?userId='' @ ToString ident)
           (failure (posts_api w (length (requests w))
                      (''https://jsonplaceholder.typicode.com/posts?userId='' @ ToString ident))),
         Inr Nul))
   \<and> (ident \<noteq> PUndefined
        \<and> fails (user_api w (length (requests w))
                  (''https://jsonplaceholder.typicode.com/users/'' @ ToString ident)) \<longrightarrow>
      getUser w ident =
        (failed w (''https://jsonplaceholder.typicode.com/users/'' @ ToString ident)
           (failure (user_api w (length (requests w))
                      (''https://jsonplaceholder.typicode.com/users/'' @ ToString ident))),
         Inr Nul))
   \<and> (ident \<noteq> PUndefined
        \<and> fails (comments_api w (length (requests w))
                  (''https://jsonplaceholder.typicode.com/comments?postId='' @ ToString ident)) \<longrightarrow>
      getPostComments w ident =
        (failed w (''https://jsonplaceholder.typicode.com/comments?postId='' @ ToString ident)
           (failure (comments_api w (length (requests w))
                      (''https://jsonplaceholder.typicode.com/comments?postId='' @ ToString ident))),
         Inr Nul))"
  by (simp add: getUsers_def getUserPosts_def getUser_def getPostComments_def failing_fetch)

theorem fetch_failure_returns_null_witness:
  "getUsers offlinePage =
     (failed offlinePage ''https://jsonplaceholder.typicode.com/users'' (TypeError ''Failed to fetch''), Inr Nul)
   \<and> getUserPosts offlinePage (PNum 1) =
     (failed offlinePage ''https://jsonplaceholder.typicode.com/posts?userId=1'' (TypeError ''Failed to fetch''),
      Inr Nul)
   \<and> getUser offlinePage (PNum 1) =
     (failed offlinePage ''https://jsonplaceholder.typicode.com/users/1'' (TypeError ''Failed to fetch''),
      Inr Nul)
   \<and> getPostComments offlinePage (PNum 1) =
     (failed offlinePage ''https://jsonplaceholder.typicode.com/comments?postId=1'' (TypeError ''Failed to fetch''),
      Inr Nul)
   \<and> getUsers failingPage =
     (failed failingPage ''https://jsonplaceholder.typicode.com/users'' (Error ''Network response was not ok''),
      Inr Nul)
   \<and> getUser failingPage (PNum 1) =
     (failed failingPage ''https://jsonplaceholder.typicode.com/users/1'' (Error ''Network response was not ok''),
      Inr Nul)"
  using fetch_failure_returns_null [of offlinePage "PNum 1"]
    fetch_failure_returns_null [of failingPage "PNum 1"]
  by (simp add: offlinePage_def unreachable_def failingPage_def notFound_def digitChar_def)

subsection \<open>C4: a missing identifier\<close>

text \<open>
  C4 as stated, for \<^verbatim>\<open>getUsers\<close>: called with no argument it should return \<^verbatim>\<open>undefined\<close> without a
  request. \<^verbatim>\<open>getUsers\<close> has no parameter; on the sample page it requests the user list and
  returns it.
\<close>

theorem getUsers_issues_request:
  "snd (getUsers onlinePage) = Inr (Obj [leanne])
   \<and> snd (getUsers onlinePage) \<noteq> Inr Undef
   \<and> requests onlinePage = []
   \<and> requests (fst (getUsers onlinePage)) = [''https://jsonplaceholder.typicode.com/users'']"
  by (simp add: getUsers_def catchFetchError_def tryFetchJson_def fetch_def onlinePage_def servedUsers_def)

text \<open>
  C4, amended. Each fetch function that takes an identifier (\<^verbatim>\<open>getUserPosts\<close>, \<^verbatim>\<open>getUser\<close>,
  \<^verbatim>\<open>getPostComments\<close>) returns \<^verbatim>\<open>undefined\<close> when it is called without it, and leaves the world as
  it was: no request is issued. \<^verbatim>\<open>getUsers\<close> takes no identifier and always issues its one
  request.
\<close>

theorem missing_identifier_returns_undefined:
  "getUserPosts w PUndefined = (w, Inr Undef)
   \<and> getUser w PUndefined = (w, Inr Undef)
   \<and> getPostComments w PUndefined = (w, Inr Undef)
   \<and> requests (fst (getUsers w)) = requests w @ [''https://jsonplaceholder.typicode.com/users'']"
  by (simp add: getUserPosts_def getUser_def getPostComments_def getUsers_def requests_catchFetchError)

theorem missing_identifier_returns_undefined_witness:
  "getUserPosts offlinePage PUndefined = (offlinePage, Inr Undef)
   \<and> getUser offlinePage PUndefined = (offlinePage, Inr Undef)
   \<and> getPostComments offlinePage PUndefined = (offlinePage, Inr Undef)
   \<and> requests (fst (getUsers offlinePage)) = [''https://jsonplaceholder.typicode.com/users'']"
  using missing_identifier_returns_undefined [of offlinePage]
  by (simp add: offlinePage_def)

subsection \<open>C5: createSelectOptions\<close>

text \<open>
  C5. \<^verbatim>\<open>createSelectOptions\<close> returns an empty array for an empty user array and \<^verbatim>\<open>undefined\<close>
  for \<^verbatim>\<open>undefined\<close>. For a non-empty user array it returns one \<^verbatim>\<open>option\<close> element per user, in
  input order: the value of the i-th option is the id of the i-th user, as a string, and its
  text is the name of the i-th user.
\<close>

theorem createSelectOptions_options:
  "createSelectOptions (Obj []) = Obj []
   \<and> createSelectOptions Undef = Undef
   \<and> (us \<noteq> [] \<longrightarrow>
        (\<exists>options. createSelectOptions (Obj us) = Obj options \<and> length options = length us
           \<and> (\<forall>i < length us. \<exists>e cs. options ! i = Element e cs \<and> tagName e = ''option''
                  \<and> elValue e = ToString (user_id (us ! i))
                  \<and> textContent (options ! i) = nullableString (user_name (us ! i)))))"
proof (intro conjI impI)
  show "createSelectOptions (Obj []) = Obj []" by (simp add: createSelectOptions_def)
  show "createSelectOptions Undef = Undef" by (simp add: createSelectOptions_def)
next
  assume "us \<noteq> []"
  have eq: "createSelectOptions (Obj us) = Obj (map createOption us)"
    by (simp add: createSelectOptions_def createSelectOptions_loop_map)
  have each: "\<exists>e cs. createOption u = Element e cs \<and> tagName e = ''option''
      \<and> elValue e = ToString (user_id u)" for u
    by (simp add: createOption_eq)
  show "\<exists>options. createSelectOptions (Obj us) = Obj options \<and> length options = length us
           \<and> (\<forall>i < length us. \<exists>e cs. options ! i = Element e cs \<and> tagName e = ''option''
                  \<and> elValue e = ToString (user_id (us ! i))
                  \<and> textContent (options ! i) = nullableString (user_name (us ! i)))"
    using each by (simp add: eq createOption_text)
qed

theorem createSelectOptions_options_witness:
  "createSelectOptions (Obj [leanne]) =
     Obj [Element \<lparr> tagName = ''option'', classList = [], dataPostId = None, elValue = ''1'',
            listenerProp = False, clickListeners = [] \<rparr> [Text ''Leanne Graham'']]"
  using createSelectOptions_options [of "[leanne]"]
  by (simp add: createSelectOptions_def createOption_eq leanne_def digitChar_def)


subsection \<open>C6: toggling twice\<close>





subsection \<open>C7: the user chosen in the select menu\<close>




subsection \<open>C8: missing anchors\<close>




subsection \<open>C9: refreshPosts without posts\<close>

text \<open>
  C9. When the post list is absent (\<^verbatim>\<open>undefined\<close>, or the \<^verbatim>\<open>null\<close> that \<^verbatim>\<open>getUserPosts\<close> returns on
  failure), \<^verbatim>\<open>refreshPosts\<close> returns \<^verbatim>\<open>undefined\<close> and the world is as it was: no listener is
  removed, no child of \<^verbatim>\<open>main\<close> is deleted, nothing is appended.
\<close>

theorem refreshPosts_absent_posts:
  "\<not> present posts \<Longrightarrow> refreshPosts w posts = (w, Inr (Prim PUndefined))"
  by (simp add: refreshPosts_def)

theorem refreshPosts_absent_posts_witness:
  "\<not> present (Nul :: post list maybe) \<and> refreshPosts refreshedPage Nul = (refreshedPage, Inr (Prim PUndefined))
   \<and> refreshPosts refreshedPage Undef = (refreshedPage, Inr (Prim PUndefined))"
  using refreshPosts_absent_posts [of Nul refreshedPage] refreshPosts_absent_posts [of Undef refreshedPage]
  by simp

subsection \<open>C10: deleteChildElements\<close>

text \<open>
  C10. For an argument without a tag name (a primitive, \<^verbatim>\<open>null\<close> and \<^verbatim>\<open>undefined\<close> among them, or
  a node that is not an element) \<^verbatim>\<open>deleteChildElements\<close> returns \<^verbatim>\<open>undefined\<close> and changes
  nothing. For an element, in the document or outside it, it returns that element, whose
  children are then the children it had that are not elements, in their order.
\<close>

theorem deleteChildElements_result:
  "deleteChildElements w (Prim x) = (w, Prim PUndefined)
   \<and> (tagNameOf w v = None \<longrightarrow> deleteChildElements w v = (w, Prim PUndefined))
   \<and> (node_at p (document w) = Some (Element e cs) \<longrightarrow>
        deleteChildElements w (NodeRef p) =
          (w\<lparr>document := update_at p deleteChildrenOf (document w)\<rparr>, NodeRef p)
        \<and> node_at p (update_at p deleteChildrenOf (document w)) =
            Some (Element e (filter (\<lambda>n. \<not> isElement n) cs))
        \<and> childElementCount (filter (\<lambda>n. \<not> isElement n) cs) = 0)
   \<and> deleteChildElements w (Detached (Element e cs)) =
        (w, Detached (Element e (filter (\<lambda>n. \<not> isElement n) cs)))"
  by (simp add: deleteChildElements_def tagNameOf_def node_at_update_at deleteChildElements_loop_filter
      childElementCount_def)

theorem deleteChildElements_result_witness:
  "deleteChildElements textPage (Prim PNull) = (textPage, Prim PUndefined)
   \<and> deleteChildElements textPage (NodeRef [0, 0]) = (textPage, Prim PUndefined)
   \<and> deleteChildElements textPage (NodeRef [0]) =
       (textPage\<lparr>document := [appendChild (Text ''...'') (appendChild (Text ''Loading'') (createElement ''main''))]\<rparr>,
        NodeRef [0])"
  using deleteChildElements_result [of textPage PNull "NodeRef [0, 0]" "[0]"
      "\<lparr> tagName = ''main'', classList = [], dataPostId = None, elValue = [],
         listenerProp = False, clickListeners = [] \<rparr>"
      "[Text ''Loading'', createElement ''p'', Text ''...'', createElement ''article'']"]
  by (simp add: textPage_def onlinePage_def tagNameOf_def createElement_def deleteChildElements_loop_filter)


end
